theory Spec2Isabelle
  imports Complex_Main
begin

section \<open>Energy ingestion engine: values, rows and the database\<close>

text \<open>
  The engine is a NestJS service over PostgreSQL. The model follows the two services
  (\<^verbatim>\<open>IngestionService\<close>, \<^verbatim>\<open>AnalyticsService\<close>), the controller of the ingest
  routes, the two DTO classes with their class-validator decorators, and the four
  entities with the types of their columns.

  A JavaScript number is the real number its JSON literal denotes. The store rounds it to
  the scale of its \<^verbatim>\<open>decimal\<close> column. The arithmetic of the analytics read is exact:
  a result that falls on a rounding tie or on a threshold may differ from the IEEE-754
  one. An instant (\<^verbatim>\<open>Date\<close>, SQL \<^verbatim>\<open>timestamp\<close>) is its number of milliseconds
  since the epoch; \<^verbatim>\<open>Invalid Date\<close> is \<open>None\<close>.
\<close>

type_synonym instant = int

text \<open>A value of a JSON request body, as the class-validator decorators see it:
  a string, a (finite) number, or anything else (absent, null, boolean, object, array).\<close>

datatype jsval = JSString string | JSNumber real | JSOther

text \<open>The three failures: a rejected request body (with the names of the offending
  properties), a failed storage call, and the analytics service's
  \<^verbatim>\<open>NotFoundException\<close> with its message.\<close>

datatype error =
    ValidationError "string list"
  | PersistenceError
  | NotFoundException string

text \<open>\<^verbatim>\<open>MeterTelemetryDto\<close> and \<^verbatim>\<open>VehicleTelemetryDto\<close> (prefix \<open>m_\<close>, \<open>v_\<close>: both
  classes have a field \<^verbatim>\<open>timestamp\<close>).\<close>

record MeterTelemetryDto =
  m_meterId :: string
  m_kwhConsumedAc :: real
  m_voltage :: real
  m_timestamp :: string

record VehicleTelemetryDto =
  v_vehicleId :: string
  v_soc :: real
  v_kwhDeliveredDc :: real
  v_batteryTemp :: real
  v_timestamp :: string

text \<open>The entities: one current-status row per device, keyed by the device identifier
  (\<open>mcs_\<close>, \<open>vcs_\<close>), and the history rows with their generated \<^verbatim>\<open>id\<close> and the
  \<^verbatim>\<open>ingested_at\<close> receipt time (\<open>mth_\<close>, \<open>vth_\<close>).\<close>

record MeterCurrentStatus =
  mcs_meterId :: string
  mcs_kwhConsumedAc :: real
  mcs_voltage :: real
  mcs_lastUpdated :: instant
  mcs_createdAt :: instant

record VehicleCurrentStatus =
  vcs_vehicleId :: string
  vcs_soc :: real
  vcs_kwhDeliveredDc :: real
  vcs_batteryTemp :: real
  vcs_lastUpdated :: instant
  vcs_createdAt :: instant

record MeterTelemetryHistory =
  mth_id :: nat
  mth_meterId :: string
  mth_kwhConsumedAc :: real
  mth_voltage :: real
  mth_timestamp :: instant
  mth_ingestedAt :: instant

record VehicleTelemetryHistory =
  vth_id :: nat
  vth_vehicleId :: string
  vth_soc :: real
  vth_kwhDeliveredDc :: real
  vth_batteryTemp :: real
  vth_timestamp :: instant
  vth_ingestedAt :: instant

text \<open>The database: the two keyed tables as maps from the primary key, the two
  append-only tables as lists in insertion order, and the sequences behind the generated
  \<^verbatim>\<open>id\<close> columns (the last value drawn).\<close>

record db =
  meter_current_status :: "string \<rightharpoonup> MeterCurrentStatus"
  vehicle_current_status :: "string \<rightharpoonup> VehicleCurrentStatus"
  meter_telemetry_history :: "MeterTelemetryHistory list"
  vehicle_telemetry_history :: "VehicleTelemetryHistory list"
  meter_telemetry_history_id_seq :: nat
  vehicle_telemetry_history_id_seq :: nat

text \<open>What a call depends on outside the program: validator.js's ISO 8601 test behind
  \<^verbatim>\<open>@IsDateString\<close>, the parser behind \<^verbatim>\<open>new Date(string)\<close>, the storage engine's
  clock (the default of \<^verbatim>\<open>created_at\<close> and \<^verbatim>\<open>ingested_at\<close>), and which storage calls
  of the invocation throw (the calls are numbered in program order, from 0).\<close>

record env =
  isISO8601 :: "string \<Rightarrow> bool"
  newDate :: "string \<Rightarrow> instant option"
  CURRENT_TIMESTAMP :: instant
  fails :: "nat \<Rightarrow> bool"

section \<open>AnalyticsService\<close>

datatype HealthStatus = INSUFFICIENT_DATA | EXCELLENT | NORMAL | WARNING | CRITICAL

record VehiclePerformanceAnalyticsDto =
  vehicleId :: string
  periodStart :: instant
  periodEnd :: instant
  totalEnergyConsumedAc :: real
  totalEnergyDeliveredDc :: real
  efficiencyRatio :: real
  avgBatteryTemp :: real
  dataPointsAnalyzed :: int
  healthStatus :: HealthStatus

definition calculateHealthStatus :: "real \<Rightarrow> int \<Rightarrow> HealthStatus" where
  "calculateHealthStatus efficiency dataPoints =
     (if dataPoints < 10 then INSUFFICIENT_DATA
      else if efficiency \<ge> 0.9 then EXCELLENT
      else if efficiency \<ge> 0.85 then NORMAL
      else if efficiency \<ge> 0.75 then WARNING
      else CRITICAL)"

text \<open>The SQL aggregates over the selected rows: \<^verbatim>\<open>SUM\<close> and \<^verbatim>\<open>AVG\<close> of no row are
  \<^verbatim>\<open>NULL\<close>. \<^verbatim>\<open>parseFloat(x) || 0\<close> turns \<^verbatim>\<open>NULL\<close> (parsed to \<^verbatim>\<open>NaN\<close>) into 0.\<close>

definition sql_SUM :: "real list \<Rightarrow> real option" where
  "sql_SUM xs = (if xs = [] then None else Some (sum_list xs))"

definition sql_AVG :: "real list \<Rightarrow> real option" where
  "sql_AVG xs = (if xs = [] then None else Some (sum_list xs / real (length xs)))"

definition parseFloat_or_0 :: "real option \<Rightarrow> real" where
  "parseFloat_or_0 x = (case x of None \<Rightarrow> 0 | Some r \<Rightarrow> (if r = 0 then 0 else r))"

text \<open>\<^verbatim>\<open>Math.round\<close>: the nearest integer, a tie going up.\<close>

definition Math_round :: "real \<Rightarrow> real" where
  "Math_round x = of_int \<lfloor>x + 1 / 2\<rfloor>"

definition vehicleWindow :: "instant \<Rightarrow> string \<Rightarrow> db \<Rightarrow> VehicleTelemetryHistory list" where
  "vehicleWindow now vid d =
     filter (\<lambda>v. vth_vehicleId v = vid
                \<and> vth_timestamp v \<ge> now - 24 * 60 * 60 * 1000
                \<and> vth_timestamp v \<le> now)
            (vehicle_telemetry_history d)"

definition meterWindow :: "instant \<Rightarrow> string \<Rightarrow> db \<Rightarrow> MeterTelemetryHistory list" where
  "meterWindow now mid d =
     filter (\<lambda>m. mth_meterId m = mid
                \<and> mth_timestamp m \<ge> now - 24 * 60 * 60 * 1000
                \<and> mth_timestamp m \<le> now)
            (meter_telemetry_history d)"

definition notFoundMessage :: "string \<Rightarrow> string" where
  "notFoundMessage vid = ''No data found for vehicle '' @ vid @ '' in the last 24 hours''"

text \<open>\<^verbatim>\<open>getVehiclePerformance\<close>, with the value of \<^verbatim>\<open>new Date()\<close> as the argument
  \<open>now\<close>. The two range reads are taken on an available store.\<close>

definition getVehiclePerformance ::
  "instant \<Rightarrow> string \<Rightarrow> db \<Rightarrow> error + VehiclePerformanceAnalyticsDto" where
  "getVehiclePerformance now vid d =
     (let oneDayAgo = now - 24 * 60 * 60 * 1000;
          vrows = vehicleWindow now vid d;
          count = length vrows
      in if count = 0 then Inl (NotFoundException (notFoundMessage vid))
         else
           let meterId = vid;
               mrows = meterWindow now meterId d;
               totalDc = parseFloat_or_0 (sql_SUM (map vth_kwhDeliveredDc vrows));
               totalAc = parseFloat_or_0 (sql_SUM (map mth_kwhConsumedAc mrows));
               avgTemp = parseFloat_or_0 (sql_AVG (map vth_batteryTemp vrows));
               dataPoints = int count;
               ratio = (if totalAc > 0 then totalDc / totalAc else 0);
               status = calculateHealthStatus ratio dataPoints
           in Inr \<lparr> vehicleId = vid,
                    periodStart = oneDayAgo,
                    periodEnd = now,
                    totalEnergyConsumedAc = totalAc,
                    totalEnergyDeliveredDc = totalDc,
                    efficiencyRatio = Math_round (ratio * 10000) / 10000,
                    avgBatteryTemp = Math_round (avgTemp * 100) / 100,
                    dataPointsAnalyzed = dataPoints,
                    healthStatus = status \<rparr>)"

section \<open>Column types\<close>

text \<open>
  \<^verbatim>\<open>decimal(p, s)\<close> holds a number rounded to \<open>s\<close> decimal places, a tie going away
  from zero, and refuses one that then has more than \<open>p - s\<close> digits before the point.
  \<^verbatim>\<open>varchar(n)\<close> refuses a string longer than \<open>n\<close>.
\<close>

definition decimal :: "nat \<Rightarrow> nat \<Rightarrow> real \<Rightarrow> real option" where
  "decimal p s x =
     (let r = (if x < 0 then - of_int \<lfloor>- x * 10 ^ s + 1 / 2\<rfloor> / 10 ^ s
               else of_int \<lfloor>x * 10 ^ s + 1 / 2\<rfloor> / 10 ^ s)
      in if \<bar>r\<bar> < 10 ^ (p - s) then Some r else None)"

definition varchar :: "nat \<Rightarrow> string \<Rightarrow> string option" where
  "varchar n s = (if length s \<le> n then Some s else None)"

text \<open>
  The values of a record as the columns of its two tables take them (the current-status
  table and the history table of a device class declare the same types): the key as
  \<^verbatim>\<open>varchar(50)\<close>, the energy as \<^verbatim>\<open>decimal(10,4)\<close>, the voltage as
  \<^verbatim>\<open>decimal(8,2)\<close>, the state of charge and the temperature as \<^verbatim>\<open>decimal(5,2)\<close>,
  and \<^verbatim>\<open>new Date(timestamp)\<close> as \<^verbatim>\<open>timestamp\<close>. \<open>None\<close>: the store refuses the
  record. The \<^verbatim>\<open>CHECK\<close> on \<^verbatim>\<open>soc\<close> of the initialisation script is not modelled.
\<close>

definition meterColumns ::
  "env \<Rightarrow> MeterTelemetryDto \<Rightarrow> (string \<times> real \<times> real \<times> instant) option" where
  "meterColumns e data =
     (case varchar 50 (m_meterId data) of
        None \<Rightarrow> None
      | Some key \<Rightarrow>
          (case decimal 10 4 (m_kwhConsumedAc data) of
             None \<Rightarrow> None
           | Some kwh \<Rightarrow>
               (case decimal 8 2 (m_voltage data) of
                  None \<Rightarrow> None
                | Some volts \<Rightarrow>
                    (case newDate e (m_timestamp data) of
                       None \<Rightarrow> None
                     | Some t \<Rightarrow> Some (key, kwh, volts, t)))))"

definition vehicleColumns ::
  "env \<Rightarrow> VehicleTelemetryDto \<Rightarrow> (string \<times> real \<times> real \<times> real \<times> instant) option" where
  "vehicleColumns e data =
     (case varchar 50 (v_vehicleId data) of
        None \<Rightarrow> None
      | Some key \<Rightarrow>
          (case decimal 5 2 (v_soc data) of
             None \<Rightarrow> None
           | Some charge \<Rightarrow>
               (case decimal 10 4 (v_kwhDeliveredDc data) of
                  None \<Rightarrow> None
                | Some kwh \<Rightarrow>
                    (case decimal 5 2 (v_batteryTemp data) of
                       None \<Rightarrow> None
                     | Some temp \<Rightarrow>
                         (case newDate e (v_timestamp data) of
                            None \<Rightarrow> None
                          | Some t \<Rightarrow> Some (key, charge, kwh, temp, t))))))"

section \<open>IngestionService\<close>

text \<open>
  The entity manager's statements inside a transaction work on the transaction's copy
  \<open>d\<close> of the database. Each takes the number \<open>k\<close> of the storage call and throws
  when the storage fails at that call or refuses the record.

  \<^verbatim>\<open>upsert(Entity, values, [key])\<close> inserts the row, or on a conflict on the key
  overwrites the columns that \<^verbatim>\<open>values\<close> gives. \<^verbatim>\<open>lastUpdated\<close> is given;
  \<^verbatim>\<open>createdAt\<close> is not, so a new row takes the storage clock and an existing row
  keeps its value.
\<close>

definition upsertMeterCurrentStatus ::
  "env \<Rightarrow> nat \<Rightarrow> MeterTelemetryDto \<Rightarrow> db \<Rightarrow> error + db" where
  "upsertMeterCurrentStatus e k data d =
     (if fails e k then Inl PersistenceError
      else case meterColumns e data of
             None \<Rightarrow> Inl PersistenceError
           | Some (key, kwh, volts, t) \<Rightarrow>
               Inr (d\<lparr>meter_current_status := (meter_current_status d)(key \<mapsto>
                      \<lparr> mcs_meterId = key,
                        mcs_kwhConsumedAc = kwh,
                        mcs_voltage = volts,
                        mcs_lastUpdated = t,
                        mcs_createdAt =
                          (case meter_current_status d key of
                             None \<Rightarrow> CURRENT_TIMESTAMP e
                           | Some old \<Rightarrow> mcs_createdAt old) \<rparr>)\<rparr>))"

definition upsertVehicleCurrentStatus ::
  "env \<Rightarrow> nat \<Rightarrow> VehicleTelemetryDto \<Rightarrow> db \<Rightarrow> error + db" where
  "upsertVehicleCurrentStatus e k data d =
     (if fails e k then Inl PersistenceError
      else case vehicleColumns e data of
             None \<Rightarrow> Inl PersistenceError
           | Some (key, charge, kwh, temp, t) \<Rightarrow>
               Inr (d\<lparr>vehicle_current_status := (vehicle_current_status d)(key \<mapsto>
                      \<lparr> vcs_vehicleId = key,
                        vcs_soc = charge,
                        vcs_kwhDeliveredDc = kwh,
                        vcs_batteryTemp = temp,
                        vcs_lastUpdated = t,
                        vcs_createdAt =
                          (case vehicle_current_status d key of
                             None \<Rightarrow> CURRENT_TIMESTAMP e
                           | Some old \<Rightarrow> vcs_createdAt old) \<rparr>)\<rparr>))"

text \<open>The history rows of \<^verbatim>\<open>insert(Entity, values)\<close>, one per value and in their order;
  \<open>n\<close> is the last value drawn from the sequence, the next \<^verbatim>\<open>id\<close> is \<open>n + 1\<close>. A
  statement that throws is taken to draw no value.\<close>

fun meterHistoryRows ::
  "env \<Rightarrow> nat \<Rightarrow> MeterTelemetryDto list \<Rightarrow> MeterTelemetryHistory list option" where
  "meterHistoryRows e n [] = Some []"
| "meterHistoryRows e n (item # items) =
     (case meterColumns e item of
        None \<Rightarrow> None
      | Some (key, kwh, volts, t) \<Rightarrow>
          (case meterHistoryRows e (Suc n) items of
             None \<Rightarrow> None
           | Some rows \<Rightarrow>
               Some (\<lparr> mth_id = Suc n,
                       mth_meterId = key,
                       mth_kwhConsumedAc = kwh,
                       mth_voltage = volts,
                       mth_timestamp = t,
                       mth_ingestedAt = CURRENT_TIMESTAMP e \<rparr> # rows)))"

fun vehicleHistoryRows ::
  "env \<Rightarrow> nat \<Rightarrow> VehicleTelemetryDto list \<Rightarrow> VehicleTelemetryHistory list option" where
  "vehicleHistoryRows e n [] = Some []"
| "vehicleHistoryRows e n (item # items) =
     (case vehicleColumns e item of
        None \<Rightarrow> None
      | Some (key, charge, kwh, temp, t) \<Rightarrow>
          (case vehicleHistoryRows e (Suc n) items of
             None \<Rightarrow> None
           | Some rows \<Rightarrow>
               Some (\<lparr> vth_id = Suc n,
                       vth_vehicleId = key,
                       vth_soc = charge,
                       vth_kwhDeliveredDc = kwh,
                       vth_batteryTemp = temp,
                       vth_timestamp = t,
                       vth_ingestedAt = CURRENT_TIMESTAMP e \<rparr> # rows)))"

definition insertMeterTelemetryHistory ::
  "env \<Rightarrow> nat \<Rightarrow> MeterTelemetryDto list \<Rightarrow> db \<Rightarrow> error + db" where
  "insertMeterTelemetryHistory e k items d =
     (if fails e k then Inl PersistenceError
      else case meterHistoryRows e (meter_telemetry_history_id_seq d) items of
             None \<Rightarrow> Inl PersistenceError
           | Some rows \<Rightarrow>
               Inr (d\<lparr>meter_telemetry_history := meter_telemetry_history d @ rows,
                      meter_telemetry_history_id_seq :=
                        meter_telemetry_history_id_seq d + length rows\<rparr>))"

definition insertVehicleTelemetryHistory ::
  "env \<Rightarrow> nat \<Rightarrow> VehicleTelemetryDto list \<Rightarrow> db \<Rightarrow> error + db" where
  "insertVehicleTelemetryHistory e k items d =
     (if fails e k then Inl PersistenceError
      else case vehicleHistoryRows e (vehicle_telemetry_history_id_seq d) items of
             None \<Rightarrow> Inl PersistenceError
           | Some rows \<Rightarrow>
               Inr (d\<lparr>vehicle_telemetry_history := vehicle_telemetry_history d @ rows,
                      vehicle_telemetry_history_id_seq :=
                        vehicle_telemetry_history_id_seq d + length rows\<rparr>))"

definition commitTransaction :: "env \<Rightarrow> nat \<Rightarrow> db \<Rightarrow> error + db" where
  "commitTransaction e k d = (if fails e k then Inl PersistenceError else Inr d)"

text \<open>\<^verbatim>\<open>rollbackTransaction\<close>: the database \<open>d\<close> as it was before the transaction; of the
  transaction's copy \<open>w\<close> only the values drawn from the sequences stay drawn.\<close>

definition rollbackTransaction :: "db \<Rightarrow> db \<Rightarrow> db" where
  "rollbackTransaction d w =
     d\<lparr>meter_telemetry_history_id_seq := meter_telemetry_history_id_seq w,
       vehicle_telemetry_history_id_seq := vehicle_telemetry_history_id_seq w\<rparr>"

text \<open>
  The four operations take the database and return the outcome with the database after
  the call. \<^verbatim>\<open>connect\<close> and \<^verbatim>\<open>startTransaction\<close> are storage calls 0 and 1, outside
  the \<^verbatim>\<open>try\<close>. Inside it the statements run on the transaction's copy; the
  \<^verbatim>\<open>catch\<close> rolls back and rethrows; \<^verbatim>\<open>commitTransaction\<close> makes the copy the
  database.
\<close>

definition ingestMeterTelemetry ::
  "env \<Rightarrow> MeterTelemetryDto \<Rightarrow> db \<Rightarrow> (error + unit) \<times> db" where
  "ingestMeterTelemetry e data d =
     (if fails e 0 \<or> fails e 1 then (Inl PersistenceError, d)
      else case upsertMeterCurrentStatus e 2 data d of
             Inl err \<Rightarrow> (Inl err, rollbackTransaction d d)
           | Inr d1 \<Rightarrow>
               (case insertMeterTelemetryHistory e 3 [data] d1 of
                  Inl err \<Rightarrow> (Inl err, rollbackTransaction d d1)
                | Inr d2 \<Rightarrow>
                    (case commitTransaction e 4 d2 of
                       Inl err \<Rightarrow> (Inl err, rollbackTransaction d d2)
                     | Inr d3 \<Rightarrow> (Inr (), d3))))"

definition ingestVehicleTelemetry ::
  "env \<Rightarrow> VehicleTelemetryDto \<Rightarrow> db \<Rightarrow> (error + unit) \<times> db" where
  "ingestVehicleTelemetry e data d =
     (if fails e 0 \<or> fails e 1 then (Inl PersistenceError, d)
      else case upsertVehicleCurrentStatus e 2 data d of
             Inl err \<Rightarrow> (Inl err, rollbackTransaction d d)
           | Inr d1 \<Rightarrow>
               (case insertVehicleTelemetryHistory e 3 [data] d1 of
                  Inl err \<Rightarrow> (Inl err, rollbackTransaction d d1)
                | Inr d2 \<Rightarrow>
                    (case commitTransaction e 4 d2 of
                       Inl err \<Rightarrow> (Inl err, rollbackTransaction d d2)
                     | Inr d3 \<Rightarrow> (Inr (), d3))))"

text \<open>The \<^verbatim>\<open>for (const item of data)\<close> loops of the batch operations: one upsert per
  item, as storage calls \<open>k\<close>, \<open>k + 1\<close>, ...; the first that throws ends the loop.\<close>

fun upsertMeterEach :: "env \<Rightarrow> nat \<Rightarrow> MeterTelemetryDto list \<Rightarrow> db \<Rightarrow> error + db" where
  "upsertMeterEach e k [] d = Inr d"
| "upsertMeterEach e k (item # items) d =
     (case upsertMeterCurrentStatus e k item d of
        Inl err \<Rightarrow> Inl err
      | Inr d1 \<Rightarrow> upsertMeterEach e (Suc k) items d1)"

fun upsertVehicleEach :: "env \<Rightarrow> nat \<Rightarrow> VehicleTelemetryDto list \<Rightarrow> db \<Rightarrow> error + db" where
  "upsertVehicleEach e k [] d = Inr d"
| "upsertVehicleEach e k (item # items) d =
     (case upsertVehicleCurrentStatus e k item d of
        Inl err \<Rightarrow> Inl err
      | Inr d1 \<Rightarrow> upsertVehicleEach e (Suc k) items d1)"

definition ingestMeterBatch ::
  "env \<Rightarrow> MeterTelemetryDto list \<Rightarrow> db \<Rightarrow> (error + unit) \<times> db" where
  "ingestMeterBatch e data d =
     (if length data = 0 then (Inr (), d)
      else if fails e 0 \<or> fails e 1 then (Inl PersistenceError, d)
      else case upsertMeterEach e 2 data d of
             Inl err \<Rightarrow> (Inl err, rollbackTransaction d d)
           | Inr d1 \<Rightarrow>
               (case insertMeterTelemetryHistory e (2 + length data) data d1 of
                  Inl err \<Rightarrow> (Inl err, rollbackTransaction d d1)
                | Inr d2 \<Rightarrow>
                    (case commitTransaction e (3 + length data) d2 of
                       Inl err \<Rightarrow> (Inl err, rollbackTransaction d d2)
                     | Inr d3 \<Rightarrow> (Inr (), d3))))"

definition ingestVehicleBatch ::
  "env \<Rightarrow> VehicleTelemetryDto list \<Rightarrow> db \<Rightarrow> (error + unit) \<times> db" where
  "ingestVehicleBatch e data d =
     (if length data = 0 then (Inr (), d)
      else if fails e 0 \<or> fails e 1 then (Inl PersistenceError, d)
      else case upsertVehicleEach e 2 data d of
             Inl err \<Rightarrow> (Inl err, rollbackTransaction d d)
           | Inr d1 \<Rightarrow>
               (case insertVehicleTelemetryHistory e (2 + length data) data d1 of
                  Inl err \<Rightarrow> (Inl err, rollbackTransaction d d1)
                | Inr d2 \<Rightarrow>
                    (case commitTransaction e (3 + length data) d2 of
                       Inl err \<Rightarrow> (Inl err, rollbackTransaction d d2)
                     | Inr d3 \<Rightarrow> (Inr (), d3))))"

section \<open>Request validation and the IngestionController\<close>

text \<open>The request bodies before validation: every property is any JSON value.\<close>

record MeterTelemetryBody =
  mb_meterId :: jsval
  mb_kwhConsumedAc :: jsval
  mb_voltage :: jsval
  mb_timestamp :: jsval

record VehicleTelemetryBody =
  vb_vehicleId :: jsval
  vb_soc :: jsval
  vb_kwhDeliveredDc :: jsval
  vb_batteryTemp :: jsval
  vb_timestamp :: jsval

text \<open>The class-validator decorators used by the two DTO classes (\<open>Min_value\<close>,
  \<open>Max_value\<close> for \<^verbatim>\<open>@Min\<close>, \<^verbatim>\<open>@Max\<close>).\<close>

fun IsString :: "jsval \<Rightarrow> bool" where
  "IsString (JSString s) = True"
| "IsString _ = False"

fun IsNumber :: "jsval \<Rightarrow> bool" where
  "IsNumber (JSNumber x) = True"
| "IsNumber _ = False"

fun Min_value :: "real \<Rightarrow> jsval \<Rightarrow> bool" where
  "Min_value m (JSNumber x) = (x \<ge> m)"
| "Min_value m _ = False"

fun Max_value :: "real \<Rightarrow> jsval \<Rightarrow> bool" where
  "Max_value m (JSNumber x) = (x \<le> m)"
| "Max_value m _ = False"

fun IsDateString :: "env \<Rightarrow> jsval \<Rightarrow> bool" where
  "IsDateString e (JSString s) = isISO8601 e s"
| "IsDateString e _ = False"

text \<open>Validation of a body against a DTO class: the names of the properties with a
  failed decorator, in declaration order.\<close>

definition validateMeterTelemetryDto :: "env \<Rightarrow> MeterTelemetryBody \<Rightarrow> string list" where
  "validateMeterTelemetryDto e b =
     (if IsString (mb_meterId b) then [] else [''meterId''])
     @ (if IsNumber (mb_kwhConsumedAc b) \<and> Min_value 0 (mb_kwhConsumedAc b)
        then [] else [''kwhConsumedAc''])
     @ (if IsNumber (mb_voltage b) \<and> Min_value 0 (mb_voltage b)
        then [] else [''voltage''])
     @ (if IsDateString e (mb_timestamp b) then [] else [''timestamp''])"

definition validateVehicleTelemetryDto :: "env \<Rightarrow> VehicleTelemetryBody \<Rightarrow> string list" where
  "validateVehicleTelemetryDto e b =
     (if IsString (vb_vehicleId b) then [] else [''vehicleId''])
     @ (if IsNumber (vb_soc b) \<and> Min_value 0 (vb_soc b) \<and> Max_value 100 (vb_soc b)
        then [] else [''soc''])
     @ (if IsNumber (vb_kwhDeliveredDc b) \<and> Min_value 0 (vb_kwhDeliveredDc b)
        then [] else [''kwhDeliveredDc''])
     @ (if IsNumber (vb_batteryTemp b) then [] else [''batteryTemp''])
     @ (if IsDateString e (vb_timestamp b) then [] else [''timestamp''])"

text \<open>The typed view of a body; the defaults are never read from a validated body.\<close>

fun stringOf :: "jsval \<Rightarrow> string" where
  "stringOf (JSString s) = s"
| "stringOf _ = []"

fun numberOf :: "jsval \<Rightarrow> real" where
  "numberOf (JSNumber x) = x"
| "numberOf _ = 0"

text \<open>
  Modelled from the spec: the wiring of request validation in front of the controller
  (the application bootstrap is not among the sources). The body of a single-record
  route is validated against its DTO class before the service is called; a violation
  fails with a \<open>ValidationError\<close> naming the offending properties and nothing is written.
\<close>

definition validatedMeter :: "env \<Rightarrow> MeterTelemetryBody \<Rightarrow> error + MeterTelemetryDto" where
  "validatedMeter e b =
     (case validateMeterTelemetryDto e b of
        [] \<Rightarrow> Inr \<lparr> m_meterId = stringOf (mb_meterId b),
                    m_kwhConsumedAc = numberOf (mb_kwhConsumedAc b),
                    m_voltage = numberOf (mb_voltage b),
                    m_timestamp = stringOf (mb_timestamp b) \<rparr>
      | p # ps \<Rightarrow> Inl (ValidationError (p # ps)))"

definition validatedVehicle :: "env \<Rightarrow> VehicleTelemetryBody \<Rightarrow> error + VehicleTelemetryDto" where
  "validatedVehicle e b =
     (case validateVehicleTelemetryDto e b of
        [] \<Rightarrow> Inr \<lparr> v_vehicleId = stringOf (vb_vehicleId b),
                    v_soc = numberOf (vb_soc b),
                    v_kwhDeliveredDc = numberOf (vb_kwhDeliveredDc b),
                    v_batteryTemp = numberOf (vb_batteryTemp b),
                    v_timestamp = stringOf (vb_timestamp b) \<rparr>
      | p # ps \<Rightarrow> Inl (ValidationError (p # ps)))"

text \<open>The four routes of the \<^verbatim>\<open>IngestionController\<close>. A single-record route hands the
  validated body to its service operation. A batch route declares its body as an array
  (\<^verbatim>\<open>@Body() data: MeterTelemetryDto[]\<close>): the items are not validated against the DTO
  class, and the array reaches the service as it came, with the type the route declares.\<close>

definition controller_ingestMeter :: "env \<Rightarrow> MeterTelemetryBody \<Rightarrow> db \<Rightarrow> (error + unit) \<times> db" where
  "controller_ingestMeter e body d =
     (case validatedMeter e body of
        Inl err \<Rightarrow> (Inl err, d)
      | Inr data \<Rightarrow> ingestMeterTelemetry e data d)"

definition controller_ingestVehicle :: "env \<Rightarrow> VehicleTelemetryBody \<Rightarrow> db \<Rightarrow> (error + unit) \<times> db" where
  "controller_ingestVehicle e body d =
     (case validatedVehicle e body of
        Inl err \<Rightarrow> (Inl err, d)
      | Inr data \<Rightarrow> ingestVehicleTelemetry e data d)"

definition controller_ingestMeterBatch ::
  "env \<Rightarrow> MeterTelemetryDto list \<Rightarrow> db \<Rightarrow> (error + unit) \<times> db" where
  "controller_ingestMeterBatch e data d = ingestMeterBatch e data d"

definition controller_ingestVehicleBatch ::
  "env \<Rightarrow> VehicleTelemetryDto list \<Rightarrow> db \<Rightarrow> (error + unit) \<times> db" where
  "controller_ingestVehicleBatch e data d = ingestVehicleBatch e data d"

section \<open>Observations of the store\<close>

text \<open>The four tables of the database, without the sequences.\<close>

definition tables ::
  "db \<Rightarrow> (string \<rightharpoonup> MeterCurrentStatus) \<times> (string \<rightharpoonup> VehicleCurrentStatus)
         \<times> MeterTelemetryHistory list \<times> VehicleTelemetryHistory list" where
  "tables d =
     (meter_current_status d, vehicle_current_status d,
      meter_telemetry_history d, vehicle_telemetry_history d)"

text \<open>The number of history entries of a device.\<close>

definition meterHistoryCount :: "string \<Rightarrow> db \<Rightarrow> nat" where
  "meterHistoryCount dev d =
     length (filter (\<lambda>h. mth_meterId h = dev) (meter_telemetry_history d))"

definition vehicleHistoryCount :: "string \<Rightarrow> db \<Rightarrow> nat" where
  "vehicleHistoryCount dev d =
     length (filter (\<lambda>h. vth_vehicleId h = dev) (vehicle_telemetry_history d))"

text \<open>The vehicle readings of a device by their position against the window
  \<open>[now - 24h, now]\<close>: strictly inside it, on one of its two ends, strictly outside it.\<close>

definition readingsStrictlyInside :: "instant \<Rightarrow> string \<Rightarrow> db \<Rightarrow> nat" where
  "readingsStrictlyInside now vid d =
     length (filter (\<lambda>v. vth_vehicleId v = vid
                          \<and> now - 86400000 < vth_timestamp v \<and> vth_timestamp v < now)
                    (vehicle_telemetry_history d))"

definition readingsOnBoundary :: "instant \<Rightarrow> string \<Rightarrow> db \<Rightarrow> nat" where
  "readingsOnBoundary now vid d =
     length (filter (\<lambda>v. vth_vehicleId v = vid
                          \<and> (vth_timestamp v = now - 86400000 \<or> vth_timestamp v = now))
                    (vehicle_telemetry_history d))"

definition readingsStrictlyOutside :: "instant \<Rightarrow> string \<Rightarrow> db \<Rightarrow> nat" where
  "readingsStrictlyOutside now vid d =
     length (filter (\<lambda>v. vth_vehicleId v = vid
                          \<and> (vth_timestamp v < now - 86400000 \<or> now < vth_timestamp v))
                    (vehicle_telemetry_history d))"


section \<open>Sample inputs\<close>

text \<open>A run of the service used to exercise the theorems on concrete inputs: ten
  instants one minute apart from 2024-02-08T10:30:00Z, a storage that never fails and
  whose clock stands five seconds after the first instant, the documentation's sample readings
  for the device \<open>V-1\<close>, and the database reached from the empty one by ingesting a
  vehicle and a meter reading at each of the ten instants.\<close>

definition sampleDates :: "(string \<times> instant) list" where
  "sampleDates =
     [(''2024-02-08T10:30:00Z'', 1707388200000),
      (''2024-02-08T10:31:00Z'', 1707388260000),
      (''2024-02-08T10:32:00Z'', 1707388320000),
      (''2024-02-08T10:33:00Z'', 1707388380000),
      (''2024-02-08T10:34:00Z'', 1707388440000),
      (''2024-02-08T10:35:00Z'', 1707388500000),
      (''2024-02-08T10:36:00Z'', 1707388560000),
      (''2024-02-08T10:37:00Z'', 1707388620000),
      (''2024-02-08T10:38:00Z'', 1707388680000),
      (''2024-02-08T10:39:00Z'', 1707388740000)]"

definition sampleEnv :: env where
  "sampleEnv =
     \<lparr> isISO8601 = (\<lambda>s. map_of sampleDates s \<noteq> None),
       newDate = map_of sampleDates,
       CURRENT_TIMESTAMP = 1707388205000,
       fails = (\<lambda>k. False) \<rparr>"

definition emptyDb :: db where
  "emptyDb =
     \<lparr> meter_current_status = Map.empty,
       vehicle_current_status = Map.empty,
       meter_telemetry_history = [],
       vehicle_telemetry_history = [],
       meter_telemetry_history_id_seq = 0,
       vehicle_telemetry_history_id_seq = 0 \<rparr>"

definition sampleMeter :: "string \<Rightarrow> MeterTelemetryDto" where
  "sampleMeter ts =
     \<lparr> m_meterId = ''V-1'', m_kwhConsumedAc = 125.5432, m_voltage = 240.5,
       m_timestamp = ts \<rparr>"

definition sampleVehicle :: "string \<Rightarrow> VehicleTelemetryDto" where
  "sampleVehicle ts =
     \<lparr> v_vehicleId = ''V-1'', v_soc = 85.5, v_kwhDeliveredDc = 105.2134,
       v_batteryTemp = 32.5, v_timestamp = ts \<rparr>"

definition ingestPair :: "string \<Rightarrow> db \<Rightarrow> db" where
  "ingestPair ts d =
     snd (ingestMeterTelemetry sampleEnv (sampleMeter ts)
            (snd (ingestVehicleTelemetry sampleEnv (sampleVehicle ts) d)))"

definition scenarioDb :: db where
  "scenarioDb = fold ingestPair (map fst sampleDates) emptyDb"



section \<open>Facts about the analytics read\<close>

lemma parseFloat_or_0_SUM: "parseFloat_or_0 (sql_SUM xs) = sum_list xs"
  by (simp add: parseFloat_or_0_def sql_SUM_def)

lemma parseFloat_or_0_AVG: "parseFloat_or_0 (sql_AVG xs) = sum_list xs / real (length xs)"
  by (simp add: parseFloat_or_0_def sql_AVG_def)

lemma getVehiclePerformance_empty:
  "vehicleWindow now vid d = [] \<Longrightarrow>
     getVehiclePerformance now vid d = Inl (NotFoundException (notFoundMessage vid))"
  by (simp add: getVehiclePerformance_def)

lemma getVehiclePerformance_nonempty:
  assumes "vehicleWindow now vid d \<noteq> []"
  shows "getVehiclePerformance now vid d =
     Inr \<lparr> vehicleId = vid,
           periodStart = now - 86400000,
           periodEnd = now,
           totalEnergyConsumedAc = sum_list (map mth_kwhConsumedAc (meterWindow now vid d)),
           totalEnergyDeliveredDc = sum_list (map vth_kwhDeliveredDc (vehicleWindow now vid d)),
           efficiencyRatio =
             Math_round ((if sum_list (map mth_kwhConsumedAc (meterWindow now vid d)) > 0
                          then sum_list (map vth_kwhDeliveredDc (vehicleWindow now vid d))
                               / sum_list (map mth_kwhConsumedAc (meterWindow now vid d))
                          else 0) * 10000) / 10000,
           avgBatteryTemp =
             Math_round (sum_list (map vth_batteryTemp (vehicleWindow now vid d))
                         / real (length (vehicleWindow now vid d)) * 100) / 100,
           dataPointsAnalyzed = int (length (vehicleWindow now vid d)),
           healthStatus =
             calculateHealthStatus
               (if sum_list (map mth_kwhConsumedAc (meterWindow now vid d)) > 0
                then sum_list (map vth_kwhDeliveredDc (vehicleWindow now vid d))
                     / sum_list (map mth_kwhConsumedAc (meterWindow now vid d))
                else 0)
               (int (length (vehicleWindow now vid d))) \<rparr>"
  using assms
  by (simp add: getVehiclePerformance_def Let_def parseFloat_or_0_SUM parseFloat_or_0_AVG)

lemma vehicleWindow_empty_iff:
  "(vehicleWindow now vid d = []) =
   (\<not> (\<exists>v \<in> set (vehicle_telemetry_history d).
          vth_vehicleId v = vid \<and> now - 86400000 \<le> vth_timestamp v \<and> vth_timestamp v \<le> now))"
  by (auto simp add: vehicleWindow_def filter_empty_conv)

lemma length_filter_disjoint:
  "\<forall>x \<in> set xs. \<not> (P x \<and> Q x) \<Longrightarrow>
     length (filter (\<lambda>x. P x \<or> Q x) xs) = length (filter P xs) + length (filter Q xs)"
  by (induction xs) auto

lemma vehicleWindow_length:
  "length (vehicleWindow now vid d) =
     readingsStrictlyInside now vid d + readingsOnBoundary now vid d"
proof -
  have "vehicleWindow now vid d =
          filter (\<lambda>v. (vth_vehicleId v = vid
                          \<and> now - 86400000 < vth_timestamp v \<and> vth_timestamp v < now)
                     \<or> (vth_vehicleId v = vid
                          \<and> (vth_timestamp v = now - 86400000 \<or> vth_timestamp v = now)))
                 (vehicle_telemetry_history d)"
    unfolding vehicleWindow_def by (rule filter_cong) auto
  then show ?thesis
    unfolding readingsStrictlyInside_def readingsOnBoundary_def
    by (simp add: length_filter_disjoint)
qed

section \<open>Facts about the write path\<close>

text \<open>A rollback gives back the four tables, and the whole database when the transaction
  drew no value from a sequence.\<close>

lemma tables_rollbackTransaction: "tables (rollbackTransaction d w) = tables d"
  by (simp add: tables_def rollbackTransaction_def)

lemma rollbackTransaction_same:
  "meter_telemetry_history_id_seq w = meter_telemetry_history_id_seq d \<Longrightarrow>
   vehicle_telemetry_history_id_seq w = vehicle_telemetry_history_id_seq d \<Longrightarrow>
     rollbackTransaction d w = d"
  by (simp add: rollbackTransaction_def)

text \<open>The upserts touch one table each.\<close>

lemma upsertMeterCurrentStatus_frame:
  "upsertMeterCurrentStatus e k x d = Inr d' \<Longrightarrow>
     vehicle_current_status d' = vehicle_current_status d
     \<and> meter_telemetry_history d' = meter_telemetry_history d
     \<and> vehicle_telemetry_history d' = vehicle_telemetry_history d
     \<and> meter_telemetry_history_id_seq d' = meter_telemetry_history_id_seq d
     \<and> vehicle_telemetry_history_id_seq d' = vehicle_telemetry_history_id_seq d"
  by (auto simp add: upsertMeterCurrentStatus_def split: if_splits option.splits)

lemma upsertVehicleCurrentStatus_frame:
  "upsertVehicleCurrentStatus e k x d = Inr d' \<Longrightarrow>
     meter_current_status d' = meter_current_status d
     \<and> meter_telemetry_history d' = meter_telemetry_history d
     \<and> vehicle_telemetry_history d' = vehicle_telemetry_history d
     \<and> meter_telemetry_history_id_seq d' = meter_telemetry_history_id_seq d
     \<and> vehicle_telemetry_history_id_seq d' = vehicle_telemetry_history_id_seq d"
  by (auto simp add: upsertVehicleCurrentStatus_def split: if_splits option.splits)

lemma upsertMeterEach_frame:
  "upsertMeterEach e k xs d = Inr d' \<Longrightarrow>
     vehicle_current_status d' = vehicle_current_status d
     \<and> meter_telemetry_history d' = meter_telemetry_history d
     \<and> vehicle_telemetry_history d' = vehicle_telemetry_history d
     \<and> meter_telemetry_history_id_seq d' = meter_telemetry_history_id_seq d
     \<and> vehicle_telemetry_history_id_seq d' = vehicle_telemetry_history_id_seq d"
proof (induction xs arbitrary: k d)
  case Nil
  then show ?case by simp
next
  case (Cons x xs)
  from Cons.prems obtain d1 where
    d1: "upsertMeterCurrentStatus e k x d = Inr d1" and
    rest: "upsertMeterEach e (Suc k) xs d1 = Inr d'"
    by (auto split: sum.splits)
  from upsertMeterCurrentStatus_frame [OF d1] Cons.IH [OF rest] show ?case by simp
qed

lemma upsertVehicleEach_frame:
  "upsertVehicleEach e k xs d = Inr d' \<Longrightarrow>
     meter_current_status d' = meter_current_status d
     \<and> meter_telemetry_history d' = meter_telemetry_history d
     \<and> vehicle_telemetry_history d' = vehicle_telemetry_history d
     \<and> meter_telemetry_history_id_seq d' = meter_telemetry_history_id_seq d
     \<and> vehicle_telemetry_history_id_seq d' = vehicle_telemetry_history_id_seq d"
proof (induction xs arbitrary: k d)
  case Nil
  then show ?case by simp
next
  case (Cons x xs)
  from Cons.prems obtain d1 where
    d1: "upsertVehicleCurrentStatus e k x d = Inr d1" and
    rest: "upsertVehicleEach e (Suc k) xs d1 = Inr d'"
    by (auto split: sum.splits)
  from upsertVehicleCurrentStatus_frame [OF d1] Cons.IH [OF rest] show ?case by simp
qed

text \<open>Every failing path of the four operations and of the four routes ends in the
  database it started from, or in its rollback.\<close>

lemma ingestMeterTelemetry_error:
  "ingestMeterTelemetry e m d = (Inl err, d') \<Longrightarrow> tables d' = tables d"
  by (auto simp add: ingestMeterTelemetry_def tables_rollbackTransaction
      split: if_splits sum.splits)

lemma ingestVehicleTelemetry_error:
  "ingestVehicleTelemetry e v d = (Inl err, d') \<Longrightarrow> tables d' = tables d"
  by (auto simp add: ingestVehicleTelemetry_def tables_rollbackTransaction
      split: if_splits sum.splits)

lemma ingestMeterBatch_error:
  "ingestMeterBatch e ms d = (Inl err, d') \<Longrightarrow> tables d' = tables d"
  by (auto simp add: ingestMeterBatch_def tables_rollbackTransaction
      split: if_splits sum.splits)

lemma ingestVehicleBatch_error:
  "ingestVehicleBatch e vs d = (Inl err, d') \<Longrightarrow> tables d' = tables d"
  by (auto simp add: ingestVehicleBatch_def tables_rollbackTransaction
      split: if_splits sum.splits)

lemma controller_ingestMeter_error:
  "controller_ingestMeter e b d = (Inl err, d') \<Longrightarrow> tables d' = tables d"
  by (auto simp add: controller_ingestMeter_def split: sum.splits
      dest: ingestMeterTelemetry_error)

lemma controller_ingestVehicle_error:
  "controller_ingestVehicle e b d = (Inl err, d') \<Longrightarrow> tables d' = tables d"
  by (auto simp add: controller_ingestVehicle_def split: sum.splits
      dest: ingestVehicleTelemetry_error)






















text \<open>A batch is applied whole or not at all: it succeeds exactly when the store accepts
  every record and no storage call of the invocation fails, and any other batch fails
  with the four tables as they were.\<close>

lemma upsertMeterEach_Inr:
  "upsertMeterEach e k ms d = Inr d' \<Longrightarrow>
     (\<forall>m \<in> set ms. meterColumns e m \<noteq> None) \<and> (\<forall>i < length ms. \<not> fails e (k + i))"
proof (induction ms arbitrary: k d)
  case Nil
  then show ?case by simp
next
  case (Cons x xs)
  from Cons.prems obtain d1 where
    d1: "upsertMeterCurrentStatus e k x d = Inr d1" and
    rest: "upsertMeterEach e (Suc k) xs d1 = Inr d'"
    by (auto split: sum.splits)
  from d1 have here: "meterColumns e x \<noteq> None \<and> \<not> fails e k"
    by (auto simp add: upsertMeterCurrentStatus_def split: if_splits option.splits)
  from Cons.IH [OF rest] have there:
    "(\<forall>m \<in> set xs. meterColumns e m \<noteq> None) \<and> (\<forall>i < length xs. \<not> fails e (Suc k + i))"
    by simp
  have "\<not> fails e (k + i)" if "i < length (x # xs)" for i
  proof (cases i)
    case 0
    with here show ?thesis by simp
  next
    case (Suc j)
    with that there show ?thesis by simp
  qed
  with here there show ?case by simp
qed

lemma upsertVehicleEach_Inr:
  "upsertVehicleEach e k vs d = Inr d' \<Longrightarrow>
     (\<forall>v \<in> set vs. vehicleColumns e v \<noteq> None) \<and> (\<forall>i < length vs. \<not> fails e (k + i))"
proof (induction vs arbitrary: k d)
  case Nil
  then show ?case by simp
next
  case (Cons x xs)
  from Cons.prems obtain d1 where
    d1: "upsertVehicleCurrentStatus e k x d = Inr d1" and
    rest: "upsertVehicleEach e (Suc k) xs d1 = Inr d'"
    by (auto split: sum.splits)
  from d1 have here: "vehicleColumns e x \<noteq> None \<and> \<not> fails e k"
    by (auto simp add: upsertVehicleCurrentStatus_def split: if_splits option.splits)
  from Cons.IH [OF rest] have there:
    "(\<forall>v \<in> set xs. vehicleColumns e v \<noteq> None) \<and> (\<forall>i < length xs. \<not> fails e (Suc k + i))"
    by simp
  have "\<not> fails e (k + i)" if "i < length (x # xs)" for i
  proof (cases i)
    case 0
    with here show ?thesis by simp
  next
    case (Suc j)
    with that there show ?thesis by simp
  qed
  with here there show ?case by simp
qed

lemma ingestMeterBatch_Inr:
  assumes "ingestMeterBatch e ms d = (Inr (), d')" and "ms \<noteq> []"
  shows "(\<forall>m \<in> set ms. meterColumns e m \<noteq> None) \<and> (\<forall>j < length ms + 4. \<not> fails e j)"
proof -
  from assms obtain d1 d2 where
    c0: "\<not> fails e 0" "\<not> fails e 1" and
    u: "upsertMeterEach e 2 ms d = Inr d1" and
    i: "insertMeterTelemetryHistory e (2 + length ms) ms d1 = Inr d2" and
    c: "commitTransaction e (3 + length ms) d2 = Inr d'"
    by (auto simp add: ingestMeterBatch_def split: if_splits sum.splits)
  from i have ci: "\<not> fails e (2 + length ms)"
    by (auto simp add: insertMeterTelemetryHistory_def split: if_splits)
  from c have cc: "\<not> fails e (3 + length ms)"
    by (auto simp add: commitTransaction_def split: if_splits)
  note each = upsertMeterEach_Inr [OF u]
  have "\<not> fails e j" if lt: "j < length ms + 4" for j
  proof -
    consider "j = 0" | "j = 1" | "2 \<le> j \<and> j - 2 < length ms"
      | "j = 2 + length ms" | "j = 3 + length ms"
      using lt by linarith
    then show ?thesis
    proof cases
      case 3
      with each have "\<not> fails e (2 + (j - 2))" by blast
      moreover from 3 have "2 + (j - 2) = j" by arith
      ultimately show ?thesis by simp
    qed (use c0 ci cc in simp_all)
  qed
  with each show ?thesis by blast
qed

lemma ingestVehicleBatch_Inr:
  assumes "ingestVehicleBatch e vs d = (Inr (), d')" and "vs \<noteq> []"
  shows "(\<forall>v \<in> set vs. vehicleColumns e v \<noteq> None) \<and> (\<forall>j < length vs + 4. \<not> fails e j)"
proof -
  from assms obtain d1 d2 where
    c0: "\<not> fails e 0" "\<not> fails e 1" and
    u: "upsertVehicleEach e 2 vs d = Inr d1" and
    i: "insertVehicleTelemetryHistory e (2 + length vs) vs d1 = Inr d2" and
    c: "commitTransaction e (3 + length vs) d2 = Inr d'"
    by (auto simp add: ingestVehicleBatch_def split: if_splits sum.splits)
  from i have ci: "\<not> fails e (2 + length vs)"
    by (auto simp add: insertVehicleTelemetryHistory_def split: if_splits)
  from c have cc: "\<not> fails e (3 + length vs)"
    by (auto simp add: commitTransaction_def split: if_splits)
  note each = upsertVehicleEach_Inr [OF u]
  have "\<not> fails e j" if lt: "j < length vs + 4" for j
  proof -
    consider "j = 0" | "j = 1" | "2 \<le> j \<and> j - 2 < length vs"
      | "j = 2 + length vs" | "j = 3 + length vs"
      using lt by linarith
    then show ?thesis
    proof cases
      case 3
      with each have "\<not> fails e (2 + (j - 2))" by blast
      moreover from 3 have "2 + (j - 2) = j" by arith
      ultimately show ?thesis by simp
    qed (use c0 ci cc in simp_all)
  qed
  with each show ?thesis by blast
qed

theorem meter_batch_with_failing_record_applies_nothing:
  assumes "(\<exists>m \<in> set ms. meterColumns e m = None) \<or> (ms \<noteq> [] \<and> (\<exists>j < length ms + 4. fails e j))"
  shows "\<exists>err d'. ingestMeterBatch e ms d = (Inl err, d') \<and> tables d' = tables d"
proof -
  from assms have ne: "ms \<noteq> []" by auto
  obtain r d' where res: "ingestMeterBatch e ms d = (r, d')" by (cases "ingestMeterBatch e ms d")
  show ?thesis
  proof (cases r)
    case (Inl err)
    with res ingestMeterBatch_error [of e ms d err d'] show ?thesis by simp
  next
    case (Inr u)
    with res have "ingestMeterBatch e ms d = (Inr (), d')" by simp
    from ingestMeterBatch_Inr [OF this ne] assms show ?thesis by blast
  qed
qed

theorem vehicle_batch_with_failing_record_applies_nothing:
  assumes "(\<exists>v \<in> set vs. vehicleColumns e v = None) \<or> (vs \<noteq> [] \<and> (\<exists>j < length vs + 4. fails e j))"
  shows "\<exists>err d'. ingestVehicleBatch e vs d = (Inl err, d') \<and> tables d' = tables d"
proof -
  from assms have ne: "vs \<noteq> []" by auto
  obtain r d' where res: "ingestVehicleBatch e vs d = (r, d')" by (cases "ingestVehicleBatch e vs d")
  show ?thesis
  proof (cases r)
    case (Inl err)
    with res ingestVehicleBatch_error [of e vs d err d'] show ?thesis by simp
  next
    case (Inr u)
    with res have "ingestVehicleBatch e vs d = (Inr (), d')" by simp
    from ingestVehicleBatch_Inr [OF this ne] assms show ?thesis by blast
  qed
qed

text \<open>A body with a failed decorator never reaches the service.\<close>

lemma controller_ingestMeter_invalid:
  "validateMeterTelemetryDto e b \<noteq> [] \<Longrightarrow>
     controller_ingestMeter e b d = (Inl (ValidationError (validateMeterTelemetryDto e b)), d)"
  by (simp add: controller_ingestMeter_def validatedMeter_def split: list.splits)

lemma controller_ingestVehicle_invalid:
  "validateVehicleTelemetryDto e b \<noteq> [] \<Longrightarrow>
     controller_ingestVehicle e b d = (Inl (ValidationError (validateVehicleTelemetryDto e b)), d)"
  by (simp add: controller_ingestVehicle_def validatedVehicle_def split: list.splits)

text \<open>The definitions unfolded to run the service on the sample inputs.\<close>

lemmas run_simps =
  ingestMeterTelemetry_def ingestVehicleTelemetry_def ingestMeterBatch_def ingestVehicleBatch_def
  upsertMeterCurrentStatus_def upsertVehicleCurrentStatus_def
  insertMeterTelemetryHistory_def insertVehicleTelemetryHistory_def commitTransaction_def
  rollbackTransaction_def meterColumns_def vehicleColumns_def decimal_def varchar_def Let_def
  sampleEnv_def sampleDates_def sampleMeter_def sampleVehicle_def emptyDb_def

text \<open>The history tables of the scenario database and its aggregates at \<open>T + 10min\<close>.\<close>

lemma scenario_vehicle_history:
  "vehicle_telemetry_history scenarioDb =
     map (\<lambda>(i, t). \<lparr> vth_id = i, vth_vehicleId = ''V-1'', vth_soc = 85.5,
                     vth_kwhDeliveredDc = 105.2134, vth_batteryTemp = 32.5,
                     vth_timestamp = t, vth_ingestedAt = 1707388205000 \<rparr>)
       [(1, 1707388200000), (2, 1707388260000), (3, 1707388320000), (4, 1707388380000),
        (5, 1707388440000), (6, 1707388500000), (7, 1707388560000), (8, 1707388620000),
        (9, 1707388680000), (10, 1707388740000)]"
  by (simp add: scenarioDb_def ingestPair_def run_simps)

lemma scenario_meter_history:
  "meter_telemetry_history scenarioDb =
     map (\<lambda>(i, t). \<lparr> mth_id = i, mth_meterId = ''V-1'', mth_kwhConsumedAc = 125.5432,
                     mth_voltage = 240.5, mth_timestamp = t,
                     mth_ingestedAt = 1707388205000 \<rparr>)
       [(1, 1707388200000), (2, 1707388260000), (3, 1707388320000), (4, 1707388380000),
        (5, 1707388440000), (6, 1707388500000), (7, 1707388560000), (8, 1707388620000),
        (9, 1707388680000), (10, 1707388740000)]"
  by (simp add: scenarioDb_def ingestPair_def run_simps)

lemma scenario_vehicle_count:
  "length (vehicleWindow 1707388800000 ''V-1'' scenarioDb) = 10"
  by (simp add: vehicleWindow_def scenario_vehicle_history)

lemma scenario_dc_total:
  "sum_list (map vth_kwhDeliveredDc (vehicleWindow 1707388800000 ''V-1'' scenarioDb)) = 1052.134"
  by (simp add: vehicleWindow_def scenario_vehicle_history)

lemma scenario_ac_total:
  "sum_list (map mth_kwhConsumedAc (meterWindow 1707388800000 ''V-1'' scenarioDb)) = 1255.432"
  by (simp add: meterWindow_def scenario_meter_history)

section \<open>Atomicity of the write path\<close>

text \<open>
  A call that returns an error, from a service operation or from a route, has left the
  four tables as they were: for every device the current-status rows and the number of
  history entries are those before the call. Only the history sequences keep what a
  rolled-back insert drew from them.
\<close>

theorem failed_ingest_keeps_tables:
  assumes "ingestMeterTelemetry e m d = (Inl err, d')
         \<or> ingestVehicleTelemetry e v d = (Inl err, d')
         \<or> ingestMeterBatch e ms d = (Inl err, d')
         \<or> ingestVehicleBatch e vs d = (Inl err, d')
         \<or> controller_ingestMeter e mb d = (Inl err, d')
         \<or> controller_ingestVehicle e vb d = (Inl err, d')
         \<or> controller_ingestMeterBatch e ms d = (Inl err, d')
         \<or> controller_ingestVehicleBatch e vs d = (Inl err, d')"
  shows "tables d' = tables d
       \<and> (\<forall>dev. meter_current_status d' dev = meter_current_status d dev
              \<and> vehicle_current_status d' dev = vehicle_current_status d dev
              \<and> meterHistoryCount dev d' = meterHistoryCount dev d
              \<and> vehicleHistoryCount dev d' = vehicleHistoryCount dev d)"
proof -
  from assms have "tables d' = tables d"
    unfolding controller_ingestMeterBatch_def controller_ingestVehicleBatch_def
    by (auto dest: ingestMeterTelemetry_error ingestVehicleTelemetry_error
          ingestMeterBatch_error ingestVehicleBatch_error
          controller_ingestMeter_error controller_ingestVehicle_error)
  then show ?thesis
    by (simp add: tables_def meterHistoryCount_def vehicleHistoryCount_def)
qed

text \<open>
  Claim C1. The claim has every ingest that fails, on validation or on persistence, leave
  the store as it was, and a batch that holds one failing record apply none of its
  records. It holds of every call that returns an error (the theorems above), but a batch
  route does not fail on a record that fails validation. The single-record route refuses
  a meter reading with \<^verbatim>\<open>voltage\<close> \<open>-1\<close>, naming \<^verbatim>\<open>voltage\<close>, and writes nothing. The
  batch route that receives the same reading after a valid one returns success and
  applies both records: two history entries for the device, the second with the voltage
  \<open>-1\<close>, and a current-status row that holds the refused reading.
\<close>

theorem meter_batch_route_writes_invalid_record:
  "controller_ingestMeter sampleEnv
     \<lparr> mb_meterId = JSString ''V-1'', mb_kwhConsumedAc = JSNumber 125.5432,
       mb_voltage = JSNumber (- 1), mb_timestamp = JSString ''2024-02-08T10:31:00Z'' \<rparr>
     emptyDb
   = (Inl (ValidationError [''voltage'']), emptyDb)
   \<and> fst (controller_ingestMeterBatch sampleEnv
            [sampleMeter ''2024-02-08T10:30:00Z'',
             \<lparr> m_meterId = ''V-1'', m_kwhConsumedAc = 125.5432, m_voltage = - 1,
               m_timestamp = ''2024-02-08T10:31:00Z'' \<rparr>]
            emptyDb) = Inr ()
   \<and> meterHistoryCount ''V-1''
        (snd (controller_ingestMeterBatch sampleEnv
                [sampleMeter ''2024-02-08T10:30:00Z'',
                 \<lparr> m_meterId = ''V-1'', m_kwhConsumedAc = 125.5432, m_voltage = - 1,
                   m_timestamp = ''2024-02-08T10:31:00Z'' \<rparr>]
                emptyDb)) = 2
   \<and> map mth_voltage
        (meter_telemetry_history
           (snd (controller_ingestMeterBatch sampleEnv
                   [sampleMeter ''2024-02-08T10:30:00Z'',
                    \<lparr> m_meterId = ''V-1'', m_kwhConsumedAc = 125.5432, m_voltage = - 1,
                      m_timestamp = ''2024-02-08T10:31:00Z'' \<rparr>]
                   emptyDb))) = [240.5, - 1]
   \<and> meter_current_status
        (snd (controller_ingestMeterBatch sampleEnv
                [sampleMeter ''2024-02-08T10:30:00Z'',
                 \<lparr> m_meterId = ''V-1'', m_kwhConsumedAc = 125.5432, m_voltage = - 1,
                   m_timestamp = ''2024-02-08T10:31:00Z'' \<rparr>]
                emptyDb)) ''V-1''
     = Some \<lparr> mcs_meterId = ''V-1'', mcs_kwhConsumedAc = 125.5432, mcs_voltage = - 1,
              mcs_lastUpdated = 1707388260000, mcs_createdAt = 1707388205000 \<rparr>"
proof -
  let ?bad = "\<lparr> m_meterId = ''V-1'', m_kwhConsumedAc = 125.5432, m_voltage = - 1,
               m_timestamp = ''2024-02-08T10:31:00Z'' \<rparr>"
  let ?run = "controller_ingestMeterBatch sampleEnv [sampleMeter ''2024-02-08T10:30:00Z'', ?bad]
                emptyDb"
  have single: "controller_ingestMeter sampleEnv
     \<lparr> mb_meterId = JSString ''V-1'', mb_kwhConsumedAc = JSNumber 125.5432,
       mb_voltage = JSNumber (- 1), mb_timestamp = JSString ''2024-02-08T10:31:00Z'' \<rparr>
     emptyDb
   = (Inl (ValidationError [''voltage'']), emptyDb)"
    by (simp add: controller_ingestMeter_def validatedMeter_def validateMeterTelemetryDto_def
          sampleEnv_def sampleDates_def)
  have ok: "fst ?run = Inr ()"
    by (simp add: controller_ingestMeterBatch_def run_simps)
  have hist: "meter_telemetry_history (snd ?run) =
      [\<lparr> mth_id = 1, mth_meterId = ''V-1'', mth_kwhConsumedAc = 125.5432, mth_voltage = 240.5,
         mth_timestamp = 1707388200000, mth_ingestedAt = 1707388205000 \<rparr>,
       \<lparr> mth_id = 2, mth_meterId = ''V-1'', mth_kwhConsumedAc = 125.5432, mth_voltage = - 1,
         mth_timestamp = 1707388260000, mth_ingestedAt = 1707388205000 \<rparr>]"
    by (simp add: controller_ingestMeterBatch_def run_simps)
  have count: "meterHistoryCount ''V-1'' (snd ?run) = 2"
    unfolding meterHistoryCount_def hist by simp
  have volts: "map mth_voltage (meter_telemetry_history (snd ?run)) = [240.5, - 1]"
    unfolding hist by simp
  have row: "meter_current_status (snd ?run) ''V-1''
     = Some \<lparr> mcs_meterId = ''V-1'', mcs_kwhConsumedAc = 125.5432, mcs_voltage = - 1,
              mcs_lastUpdated = 1707388260000, mcs_createdAt = 1707388205000 \<rparr>"
    by (simp add: controller_ingestMeterBatch_def run_simps)
  show ?thesis
    by (intro conjI) (fact single ok count volts row)+
qed

section \<open>The empty batch\<close>

text \<open>
  Claim C10. A batch operation called with the empty sequence returns success and leaves
  the current-status tables and the history tables as they were. It makes no storage call:
  the result is the same whichever storage calls would fail, the first (\<^verbatim>\<open>connect\<close>)
  included.
\<close>

theorem empty_batch_is_noop:
  "ingestMeterBatch e [] d = (Inr (), d)
   \<and> ingestVehicleBatch e [] d = (Inr (), d)
   \<and> controller_ingestMeterBatch e [] d = (Inr (), d)
   \<and> controller_ingestVehicleBatch e [] d = (Inr (), d)"
  by (simp add: ingestMeterBatch_def ingestVehicleBatch_def
        controller_ingestMeterBatch_def controller_ingestVehicleBatch_def)

theorem empty_batch_is_noop_witness:
  "ingestMeterBatch (sampleEnv\<lparr>fails := (\<lambda>k. True)\<rparr>) [] scenarioDb = (Inr (), scenarioDb)
   \<and> ingestVehicleBatch (sampleEnv\<lparr>fails := (\<lambda>k. True)\<rparr>) [] scenarioDb = (Inr (), scenarioDb)
   \<and> fst (ingestMeterBatch (sampleEnv\<lparr>fails := (\<lambda>k. True)\<rparr>)
            [sampleMeter ''2024-02-08T10:31:00Z''] scenarioDb) = Inl PersistenceError"
proof -
  have "fst (ingestMeterBatch (sampleEnv\<lparr>fails := (\<lambda>k. True)\<rparr>)
            [sampleMeter ''2024-02-08T10:31:00Z''] scenarioDb) = Inl PersistenceError"
    by (simp add: ingestMeterBatch_def)
  with empty_batch_is_noop [of "sampleEnv\<lparr>fails := (\<lambda>k. True)\<rparr>" scenarioDb]
  show ?thesis by simp
qed

section \<open>Current state after a successful ingest\<close>




section \<open>Ingesting a record twice\<close>



section \<open>Health classification\<close>

text \<open>
  Claim C3. For every efficiency ratio \<open>x\<close> and sample count \<open>n\<close>, the classifier returns
  \<open>INSUFFICIENT_DATA\<close> when \<open>n < 10\<close> whatever \<open>x\<close> is; otherwise \<open>EXCELLENT\<close> from 0.90 up,
  \<open>NORMAL\<close> on [0.85, 0.90), \<open>WARNING\<close> on [0.75, 0.85) and \<open>CRITICAL\<close> below 0.75. Each
  lower bound belongs to its band: 0.85 with 50 samples is \<open>NORMAL\<close> and 0.90 with 50
  samples is \<open>EXCELLENT\<close>.
\<close>

theorem calculateHealthStatus_bands:
  "(n < 10 \<longrightarrow> calculateHealthStatus x n = INSUFFICIENT_DATA)
   \<and> (10 \<le> n \<and> 0.9 \<le> x \<longrightarrow> calculateHealthStatus x n = EXCELLENT)
   \<and> (10 \<le> n \<and> 0.85 \<le> x \<and> x < 0.9 \<longrightarrow> calculateHealthStatus x n = NORMAL)
   \<and> (10 \<le> n \<and> 0.75 \<le> x \<and> x < 0.85 \<longrightarrow> calculateHealthStatus x n = WARNING)
   \<and> (10 \<le> n \<and> x < 0.75 \<longrightarrow> calculateHealthStatus x n = CRITICAL)
   \<and> calculateHealthStatus 0.85 50 = NORMAL
   \<and> calculateHealthStatus 0.9 50 = EXCELLENT"
  by (simp add: calculateHealthStatus_def)

theorem calculateHealthStatus_bands_witness:
  "calculateHealthStatus 0.8499 50 = WARNING
   \<and> calculateHealthStatus 0.7499 50 = CRITICAL
   \<and> calculateHealthStatus 0.8999 50 = NORMAL
   \<and> calculateHealthStatus 0.95 10 = EXCELLENT
   \<and> calculateHealthStatus 1000 9 = INSUFFICIENT_DATA"
  using calculateHealthStatus_bands [of 50 "0.8499"]
        calculateHealthStatus_bands [of 50 "0.7499"]
        calculateHealthStatus_bands [of 50 "0.8999"]
        calculateHealthStatus_bands [of 10 "0.95"]
        calculateHealthStatus_bands [of 9 1000]
  by simp

section \<open>The not-found policy\<close>

text \<open>
  Claim C4. For every device identifier and every database, \<^verbatim>\<open>getVehiclePerformance\<close>
  fails with the \<^verbatim>\<open>NotFoundException\<close> whose message names the identifier and the
  last 24 hours exactly when the vehicle history has no entry of that identifier with a
  timestamp in \<open>[now - 24h, now]\<close>, and it fails in no other way. When the vehicle history
  has such an entry and the meter history has none, the call succeeds and reports
  \<^verbatim>\<open>totalEnergyConsumedAc = 0\<close>.
\<close>

theorem not_found_policy:
  "((getVehiclePerformance now vid d =
       Inl (NotFoundException (''No data found for vehicle '' @ vid @ '' in the last 24 hours'')))
     = (\<forall>v \<in> set (vehicle_telemetry_history d).
          \<not> (vth_vehicleId v = vid \<and> now - 86400000 \<le> vth_timestamp v \<and> vth_timestamp v \<le> now)))
   \<and> (\<forall>err. getVehiclePerformance now vid d = Inl err \<longrightarrow>
          err = NotFoundException (''No data found for vehicle '' @ vid @ '' in the last 24 hours''))
   \<and> ((\<exists>v \<in> set (vehicle_telemetry_history d).
          vth_vehicleId v = vid \<and> now - 86400000 \<le> vth_timestamp v \<and> vth_timestamp v \<le> now)
       \<and> (\<forall>m \<in> set (meter_telemetry_history d).
          \<not> (mth_meterId m = vid \<and> now - 86400000 \<le> mth_timestamp m \<and> mth_timestamp m \<le> now))
       \<longrightarrow> (\<exists>s. getVehiclePerformance now vid d = Inr s \<and> totalEnergyConsumedAc s = 0))"
proof -
  have empty: "(vehicleWindow now vid d = []) =
      (\<forall>v \<in> set (vehicle_telemetry_history d).
          \<not> (vth_vehicleId v = vid \<and> now - 86400000 \<le> vth_timestamp v \<and> vth_timestamp v \<le> now))"
    using vehicleWindow_empty_iff [of now vid d] by blast
  have a: "(getVehiclePerformance now vid d =
       Inl (NotFoundException (''No data found for vehicle '' @ vid @ '' in the last 24 hours'')))
     = (vehicleWindow now vid d = [])"
  proof (cases "vehicleWindow now vid d = []")
    case True
    then show ?thesis by (simp add: getVehiclePerformance_empty notFoundMessage_def)
  next
    case False
    then show ?thesis by (simp add: getVehiclePerformance_nonempty)
  qed
  have b: "\<forall>err. getVehiclePerformance now vid d = Inl err \<longrightarrow>
          err = NotFoundException (''No data found for vehicle '' @ vid @ '' in the last 24 hours'')"
  proof (cases "vehicleWindow now vid d = []")
    case True
    then show ?thesis by (simp add: getVehiclePerformance_empty notFoundMessage_def)
  next
    case False
    then show ?thesis by (simp add: getVehiclePerformance_nonempty)
  qed
  have c: "\<exists>s. getVehiclePerformance now vid d = Inr s \<and> totalEnergyConsumedAc s = 0"
    if v: "\<exists>v \<in> set (vehicle_telemetry_history d).
          vth_vehicleId v = vid \<and> now - 86400000 \<le> vth_timestamp v \<and> vth_timestamp v \<le> now"
    and m: "\<forall>m \<in> set (meter_telemetry_history d).
          \<not> (mth_meterId m = vid \<and> now - 86400000 \<le> mth_timestamp m \<and> mth_timestamp m \<le> now)"
  proof -
    from v empty have ne: "vehicleWindow now vid d \<noteq> []" by blast
    from m have "meterWindow now vid d = []"
      by (auto simp add: meterWindow_def filter_empty_conv)
    then show ?thesis by (simp add: getVehiclePerformance_nonempty [OF ne])
  qed
  from a b c empty show ?thesis by blast
qed

theorem not_found_policy_witness:
  "getVehiclePerformance 1707388800000 ''V-1''
      (snd (ingestMeterTelemetry sampleEnv (sampleMeter ''2024-02-08T10:30:00Z'') emptyDb))
     = Inl (NotFoundException ''No data found for vehicle V-1 in the last 24 hours'')
   \<and> (\<exists>s. getVehiclePerformance 1707388800000 ''V-1''
             (snd (ingestVehicleTelemetry sampleEnv (sampleVehicle ''2024-02-08T10:30:00Z'') emptyDb))
            = Inr s
          \<and> totalEnergyConsumedAc s = 0 \<and> totalEnergyDeliveredDc s = 105.2134)"
proof -
  let ?Dm = "snd (ingestMeterTelemetry sampleEnv (sampleMeter ''2024-02-08T10:30:00Z'') emptyDb)"
  let ?Dv = "snd (ingestVehicleTelemetry sampleEnv (sampleVehicle ''2024-02-08T10:30:00Z'') emptyDb)"
  have m: "vehicle_telemetry_history ?Dm = []"
    by (simp add: run_simps)
  have v: "vehicle_telemetry_history ?Dv =
             [\<lparr> vth_id = 1, vth_vehicleId = ''V-1'', vth_soc = 85.5,
                vth_kwhDeliveredDc = 105.2134, vth_batteryTemp = 32.5,
                vth_timestamp = 1707388200000, vth_ingestedAt = 1707388205000 \<rparr>]"
    and vm: "meter_telemetry_history ?Dv = []"
    by (simp_all add: run_simps)
  from not_found_policy [of 1707388800000 "''V-1''" ?Dm, THEN conjunct1]
  have a: "getVehiclePerformance 1707388800000 ''V-1'' ?Dm
     = Inl (NotFoundException ''No data found for vehicle V-1 in the last 24 hours'')"
    unfolding m by simp
  from not_found_policy [of 1707388800000 "''V-1''" ?Dv, THEN conjunct2, THEN conjunct2]
  obtain s where s: "getVehiclePerformance 1707388800000 ''V-1'' ?Dv = Inr s"
    and ac: "totalEnergyConsumedAc s = 0"
    unfolding v vm by auto
  have ne: "vehicleWindow 1707388800000 ''V-1'' ?Dv \<noteq> []"
    unfolding vehicleWindow_def v by simp
  from s have "totalEnergyDeliveredDc s = 105.2134"
    unfolding getVehiclePerformance_nonempty [OF ne] vehicleWindow_def v
    by auto
  with a s ac show ?thesis by simp
qed

section \<open>The window of the aggregate\<close>

text \<open>
  Claim C6, as amended. For a vehicle with \<open>N\<close> readings strictly inside
  \<open>[now - 24h, now]\<close>, \<open>B\<close> readings exactly at \<open>now - 24h\<close> or at \<open>now\<close>, and \<open>M\<close>
  readings strictly outside: when \<open>N + B \<ge> 1\<close>, \<^verbatim>\<open>getVehiclePerformance\<close> reports
  \<^verbatim>\<open>dataPointsAnalyzed = N + B\<close>, whatever \<open>M\<close> is (so \<open>N\<close> when no reading lies on an
  end of the window, and the readings on the two ends are counted); when \<open>N + B = 0\<close> the
  call reports nothing and fails with the \<^verbatim>\<open>NotFoundException\<close>.
\<close>

theorem window_count:
  assumes "readingsStrictlyInside now vid d = N"
      and "readingsOnBoundary now vid d = B"
      and "readingsStrictlyOutside now vid d = M"
  shows "(0 < N + B \<longrightarrow>
            (\<exists>s. getVehiclePerformance now vid d = Inr s \<and> dataPointsAnalyzed s = int (N + B)))
       \<and> (N + B = 0 \<longrightarrow>
            getVehiclePerformance now vid d =
              Inl (NotFoundException (''No data found for vehicle '' @ vid @ '' in the last 24 hours'')))"
proof -
  have len: "length (vehicleWindow now vid d) = N + B"
    using assms by (simp add: vehicleWindow_length)
  show ?thesis
  proof (cases "N + B = 0")
    case True
    with len have "vehicleWindow now vid d = []" by simp
    with True show ?thesis by (simp add: getVehiclePerformance_empty notFoundMessage_def)
  next
    case False
    with len have ne: "vehicleWindow now vid d \<noteq> []" by auto
    from False len show ?thesis by (simp add: getVehiclePerformance_nonempty [OF ne])
  qed
qed

theorem window_count_witness:
  "\<exists>s. getVehiclePerformance 1707474660000 ''V-1''
          (fold ingestPair
             [''2024-02-08T10:30:00Z'', ''2024-02-08T10:31:00Z'', ''2024-02-08T10:32:00Z'']
             emptyDb) = Inr s
       \<and> dataPointsAnalyzed s = 2"
proof -
  let ?D = "fold ingestPair
             [''2024-02-08T10:30:00Z'', ''2024-02-08T10:31:00Z'', ''2024-02-08T10:32:00Z'']
             emptyDb"
  have h: "vehicle_telemetry_history ?D =
     map (\<lambda>(i, t). \<lparr> vth_id = i, vth_vehicleId = ''V-1'', vth_soc = 85.5,
                     vth_kwhDeliveredDc = 105.2134, vth_batteryTemp = 32.5,
                     vth_timestamp = t, vth_ingestedAt = 1707388205000 \<rparr>)
       [(1, 1707388200000), (2, 1707388260000), (3, 1707388320000)]"
    by (simp add: ingestPair_def run_simps)
  have n: "readingsStrictlyInside 1707474660000 ''V-1'' ?D = 1"
    and b: "readingsOnBoundary 1707474660000 ''V-1'' ?D = 1"
    and m: "readingsStrictlyOutside 1707474660000 ''V-1'' ?D = 1"
    unfolding readingsStrictlyInside_def readingsOnBoundary_def
      readingsStrictlyOutside_def h
    by simp_all
  from window_count [OF n b m, THEN conjunct1] show ?thesis by simp
qed

text \<open>The claim as first stated also covers \<open>N = 0\<close>: a vehicle whose only reading is
  older than 24 hours (\<open>N = 0\<close>, \<open>M = 1\<close>) gets no report with
  \<^verbatim>\<open>dataPointsAnalyzed = 0\<close>, the call throws.\<close>

theorem window_count_counterexample:
  "readingsStrictlyInside 1707474600001 ''V-1'' (ingestPair ''2024-02-08T10:30:00Z'' emptyDb) = 0
   \<and> readingsStrictlyOutside 1707474600001 ''V-1'' (ingestPair ''2024-02-08T10:30:00Z'' emptyDb) = 1
   \<and> \<not> (\<exists>s. getVehiclePerformance 1707474600001 ''V-1''
                (ingestPair ''2024-02-08T10:30:00Z'' emptyDb) = Inr s
             \<and> dataPointsAnalyzed s = 0)"
proof -
  let ?D = "ingestPair ''2024-02-08T10:30:00Z'' emptyDb"
  have h: "vehicle_telemetry_history ?D =
             [\<lparr> vth_id = 1, vth_vehicleId = ''V-1'', vth_soc = 85.5,
                vth_kwhDeliveredDc = 105.2134, vth_batteryTemp = 32.5,
                vth_timestamp = 1707388200000, vth_ingestedAt = 1707388205000 \<rparr>]"
    by (simp add: ingestPair_def run_simps)
  have w: "vehicleWindow 1707474600001 ''V-1'' ?D = []"
    unfolding vehicleWindow_def h by simp
  show ?thesis
    unfolding readingsStrictlyInside_def readingsStrictlyOutside_def h
      getVehiclePerformance_empty [OF w]
    by simp
qed

section \<open>The end-to-end scenario\<close>

text \<open>
  Claim C9, as amended. When the window of \<open>V-1\<close> holds 10 vehicle readings whose DC total
  is 1052.134 and meter readings whose AC total is 1255.432, \<^verbatim>\<open>getVehiclePerformance\<close>
  returns \<^verbatim>\<open>efficiencyRatio = 0.8381\<close> (1052.134 / 1255.432 = 0.83806..., rounded to 4
  decimal places), \<^verbatim>\<open>dataPointsAnalyzed = 10\<close> and \<^verbatim>\<open>healthStatus = WARNING\<close>.
\<close>

theorem end_to_end_scenario:
  assumes "length (vehicleWindow now ''V-1'' d) = 10"
      and "sum_list (map vth_kwhDeliveredDc (vehicleWindow now ''V-1'' d)) = 1052.134"
      and "sum_list (map mth_kwhConsumedAc (meterWindow now ''V-1'' d)) = 1255.432"
  shows "\<exists>s. getVehiclePerformance now ''V-1'' d = Inr s
             \<and> efficiencyRatio s = 0.8381
             \<and> dataPointsAnalyzed s = 10
             \<and> healthStatus s = WARNING"
proof -
  from assms(1) have ne: "vehicleWindow now ''V-1'' d \<noteq> []" by auto
  have r: "Math_round (1052.134 / 1255.432 * 10000) / 10000 = 0.8381"
    by (simp add: Math_round_def)
  have h: "calculateHealthStatus (1052.134 / 1255.432) 10 = WARNING"
    by (simp add: calculateHealthStatus_def)
  show ?thesis
    using r h by (simp add: getVehiclePerformance_nonempty [OF ne] assms)
qed

theorem end_to_end_scenario_witness:
  "\<exists>s. getVehiclePerformance 1707388800000 ''V-1'' scenarioDb = Inr s
       \<and> efficiencyRatio s = 0.8381
       \<and> dataPointsAnalyzed s = 10
       \<and> healthStatus s = WARNING"
  by (rule end_to_end_scenario [OF scenario_vehicle_count scenario_dc_total scenario_ac_total])

text \<open>On the database of the scenario (ten vehicle and ten meter readings of \<open>V-1\<close>
  ingested at \<open>T, T + 1min, ..., T + 9min\<close>, read at \<open>T + 10min\<close>) the ratio returned is
  not 0.8383.\<close>

theorem end_to_end_scenario_counterexample:
  "\<not> (\<exists>s. getVehiclePerformance 1707388800000 ''V-1'' scenarioDb = Inr s
          \<and> efficiencyRatio s = 0.8383
          \<and> dataPointsAnalyzed s = 10
          \<and> healthStatus s = WARNING)"
proof -
  have ne: "vehicleWindow 1707388800000 ''V-1'' scenarioDb \<noteq> []"
    using scenario_vehicle_count by auto
  have r: "Math_round (1052.134 / 1255.432 * 10000) / 10000 = 0.8381"
    by (simp add: Math_round_def)
  show ?thesis
    using r
    by (simp add: getVehiclePerformance_nonempty [OF ne]
          scenario_vehicle_count scenario_dc_total scenario_ac_total)
qed

section \<open>Rejected input\<close>

text \<open>
  What the single-record routes reject. A request fails with a \<open>ValidationError\<close> naming
  the offending property, and the database is left as it was, when
  \<^verbatim>\<open>kwhConsumedAc\<close> is negative, \<^verbatim>\<open>voltage\<close> is negative, \<^verbatim>\<open>soc\<close> is outside
  [0, 100], \<^verbatim>\<open>kwhDeliveredDc\<close> is negative, the timestamp fails \<^verbatim>\<open>@IsDateString()\<close>, or
  the device identifier is not a string. Validation never names the identifier of a body
  whose identifier is a string.
\<close>

theorem single_routes_reject:
  "(mb_kwhConsumedAc mb = JSNumber x \<and> x < 0 \<longrightarrow>
      (\<exists>ps. controller_ingestMeter e mb d = (Inl (ValidationError ps), d)
            \<and> ''kwhConsumedAc'' \<in> set ps))
   \<and> (mb_voltage mb = JSNumber x \<and> x < 0 \<longrightarrow>
      (\<exists>ps. controller_ingestMeter e mb d = (Inl (ValidationError ps), d)
            \<and> ''voltage'' \<in> set ps))
   \<and> (\<not> IsDateString e (mb_timestamp mb) \<longrightarrow>
      (\<exists>ps. controller_ingestMeter e mb d = (Inl (ValidationError ps), d)
            \<and> ''timestamp'' \<in> set ps))
   \<and> (\<not> IsString (mb_meterId mb) \<longrightarrow>
      (\<exists>ps. controller_ingestMeter e mb d = (Inl (ValidationError ps), d)
            \<and> ''meterId'' \<in> set ps))
   \<and> (vb_soc vb = JSNumber x \<and> (x < 0 \<or> 100 < x) \<longrightarrow>
      (\<exists>ps. controller_ingestVehicle e vb d = (Inl (ValidationError ps), d)
            \<and> ''soc'' \<in> set ps))
   \<and> (vb_kwhDeliveredDc vb = JSNumber x \<and> x < 0 \<longrightarrow>
      (\<exists>ps. controller_ingestVehicle e vb d = (Inl (ValidationError ps), d)
            \<and> ''kwhDeliveredDc'' \<in> set ps))
   \<and> (\<not> IsDateString e (vb_timestamp vb) \<longrightarrow>
      (\<exists>ps. controller_ingestVehicle e vb d = (Inl (ValidationError ps), d)
            \<and> ''timestamp'' \<in> set ps))
   \<and> (\<not> IsString (vb_vehicleId vb) \<longrightarrow>
      (\<exists>ps. controller_ingestVehicle e vb d = (Inl (ValidationError ps), d)
            \<and> ''vehicleId'' \<in> set ps))
   \<and> (mb_meterId mb = JSString i \<longrightarrow> ''meterId'' \<notin> set (validateMeterTelemetryDto e mb))
   \<and> (vb_vehicleId vb = JSString i \<longrightarrow> ''vehicleId'' \<notin> set (validateVehicleTelemetryDto e vb))"
proof -
  have m: "\<exists>ps. controller_ingestMeter e mb d = (Inl (ValidationError ps), d) \<and> p \<in> set ps"
    if "p \<in> set (validateMeterTelemetryDto e mb)" for p
  proof -
    from that have "validateMeterTelemetryDto e mb \<noteq> []" by auto
    from controller_ingestMeter_invalid [OF this] that show ?thesis by blast
  qed
  have v: "\<exists>ps. controller_ingestVehicle e vb d = (Inl (ValidationError ps), d) \<and> p \<in> set ps"
    if "p \<in> set (validateVehicleTelemetryDto e vb)" for p
  proof -
    from that have "validateVehicleTelemetryDto e vb \<noteq> []" by auto
    from controller_ingestVehicle_invalid [OF this] that show ?thesis by blast
  qed
  have c1: "mb_kwhConsumedAc mb = JSNumber x \<and> x < 0 \<longrightarrow>
      (\<exists>ps. controller_ingestMeter e mb d = (Inl (ValidationError ps), d)
            \<and> ''kwhConsumedAc'' \<in> set ps)"
  proof
    assume "mb_kwhConsumedAc mb = JSNumber x \<and> x < 0"
    then have "''kwhConsumedAc'' \<in> set (validateMeterTelemetryDto e mb)"
      unfolding validateMeterTelemetryDto_def by simp
    then show "\<exists>ps. controller_ingestMeter e mb d = (Inl (ValidationError ps), d)
            \<and> ''kwhConsumedAc'' \<in> set ps" by (rule m)
  qed
  have c2: "mb_voltage mb = JSNumber x \<and> x < 0 \<longrightarrow>
      (\<exists>ps. controller_ingestMeter e mb d = (Inl (ValidationError ps), d)
            \<and> ''voltage'' \<in> set ps)"
  proof
    assume "mb_voltage mb = JSNumber x \<and> x < 0"
    then have "''voltage'' \<in> set (validateMeterTelemetryDto e mb)"
      unfolding validateMeterTelemetryDto_def by simp
    then show "\<exists>ps. controller_ingestMeter e mb d = (Inl (ValidationError ps), d)
            \<and> ''voltage'' \<in> set ps" by (rule m)
  qed
  have c3: "\<not> IsDateString e (mb_timestamp mb) \<longrightarrow>
      (\<exists>ps. controller_ingestMeter e mb d = (Inl (ValidationError ps), d)
            \<and> ''timestamp'' \<in> set ps)"
  proof
    assume "\<not> IsDateString e (mb_timestamp mb)"
    then have "''timestamp'' \<in> set (validateMeterTelemetryDto e mb)"
      unfolding validateMeterTelemetryDto_def by simp
    then show "\<exists>ps. controller_ingestMeter e mb d = (Inl (ValidationError ps), d)
            \<and> ''timestamp'' \<in> set ps" by (rule m)
  qed
  have c4: "\<not> IsString (mb_meterId mb) \<longrightarrow>
      (\<exists>ps. controller_ingestMeter e mb d = (Inl (ValidationError ps), d)
            \<and> ''meterId'' \<in> set ps)"
  proof
    assume "\<not> IsString (mb_meterId mb)"
    then have "''meterId'' \<in> set (validateMeterTelemetryDto e mb)"
      unfolding validateMeterTelemetryDto_def by simp
    then show "\<exists>ps. controller_ingestMeter e mb d = (Inl (ValidationError ps), d)
            \<and> ''meterId'' \<in> set ps" by (rule m)
  qed
  have c5: "vb_soc vb = JSNumber x \<and> (x < 0 \<or> 100 < x) \<longrightarrow>
      (\<exists>ps. controller_ingestVehicle e vb d = (Inl (ValidationError ps), d)
            \<and> ''soc'' \<in> set ps)"
  proof
    assume "vb_soc vb = JSNumber x \<and> (x < 0 \<or> 100 < x)"
    then have "\<not> (IsNumber (vb_soc vb) \<and> Min_value 0 (vb_soc vb) \<and> Max_value 100 (vb_soc vb))"
      by auto
    then have "''soc'' \<in> set (validateVehicleTelemetryDto e vb)"
      unfolding validateVehicleTelemetryDto_def by simp
    then show "\<exists>ps. controller_ingestVehicle e vb d = (Inl (ValidationError ps), d)
            \<and> ''soc'' \<in> set ps" by (rule v)
  qed
  have c6: "vb_kwhDeliveredDc vb = JSNumber x \<and> x < 0 \<longrightarrow>
      (\<exists>ps. controller_ingestVehicle e vb d = (Inl (ValidationError ps), d)
            \<and> ''kwhDeliveredDc'' \<in> set ps)"
  proof
    assume "vb_kwhDeliveredDc vb = JSNumber x \<and> x < 0"
    then have "''kwhDeliveredDc'' \<in> set (validateVehicleTelemetryDto e vb)"
      unfolding validateVehicleTelemetryDto_def by simp
    then show "\<exists>ps. controller_ingestVehicle e vb d = (Inl (ValidationError ps), d)
            \<and> ''kwhDeliveredDc'' \<in> set ps" by (rule v)
  qed
  have c7: "\<not> IsDateString e (vb_timestamp vb) \<longrightarrow>
      (\<exists>ps. controller_ingestVehicle e vb d = (Inl (ValidationError ps), d)
            \<and> ''timestamp'' \<in> set ps)"
  proof
    assume "\<not> IsDateString e (vb_timestamp vb)"
    then have "''timestamp'' \<in> set (validateVehicleTelemetryDto e vb)"
      unfolding validateVehicleTelemetryDto_def by simp
    then show "\<exists>ps. controller_ingestVehicle e vb d = (Inl (ValidationError ps), d)
            \<and> ''timestamp'' \<in> set ps" by (rule v)
  qed
  have c8: "\<not> IsString (vb_vehicleId vb) \<longrightarrow>
      (\<exists>ps. controller_ingestVehicle e vb d = (Inl (ValidationError ps), d)
            \<and> ''vehicleId'' \<in> set ps)"
  proof
    assume "\<not> IsString (vb_vehicleId vb)"
    then have "''vehicleId'' \<in> set (validateVehicleTelemetryDto e vb)"
      unfolding validateVehicleTelemetryDto_def by simp
    then show "\<exists>ps. controller_ingestVehicle e vb d = (Inl (ValidationError ps), d)
            \<and> ''vehicleId'' \<in> set ps" by (rule v)
  qed
  have c11: "mb_meterId mb = JSString i \<longrightarrow> ''meterId'' \<notin> set (validateMeterTelemetryDto e mb)"
    unfolding validateMeterTelemetryDto_def by simp
  have c12: "vb_vehicleId vb = JSString i \<longrightarrow> ''vehicleId'' \<notin> set (validateVehicleTelemetryDto e vb)"
    unfolding validateVehicleTelemetryDto_def by simp
  show ?thesis
    by (intro conjI) (fact c1 c2 c3 c4 c5 c6 c7 c8 c11 c12)+
qed

text \<open>
  Claim C7. The claim has every record with a negative energy or voltage, a state of
  charge outside [0, 100], an unparseable timestamp or an empty device identifier fail
  with a \<open>ValidationError\<close> naming the field, nothing being written. Two inputs show that
  the code does otherwise. A vehicle reading with \<^verbatim>\<open>kwhDeliveredDc\<close> \<open>-5\<close> is refused by
  the single-record route, which names \<^verbatim>\<open>kwhDeliveredDc\<close>; the batch route, which does not
  validate its items, accepts the same reading and writes it to both tables. A meter
  reading whose \<^verbatim>\<open>meterId\<close> is the empty string passes \<^verbatim>\<open>@IsString()\<close>, the only
  decorator on the property, and the single-record route writes it: a current-status row
  and a history entry under the empty key.
\<close>

theorem invalid_records_written:
  "controller_ingestVehicle sampleEnv
     \<lparr> vb_vehicleId = JSString ''V-1'', vb_soc = JSNumber 85.5,
       vb_kwhDeliveredDc = JSNumber (- 5), vb_batteryTemp = JSNumber 32.5,
       vb_timestamp = JSString ''2024-02-08T10:30:00Z'' \<rparr>
     emptyDb
   = (Inl (ValidationError [''kwhDeliveredDc'']), emptyDb)
   \<and> fst (controller_ingestVehicleBatch sampleEnv
            [\<lparr> v_vehicleId = ''V-1'', v_soc = 85.5, v_kwhDeliveredDc = - 5,
               v_batteryTemp = 32.5, v_timestamp = ''2024-02-08T10:30:00Z'' \<rparr>]
            emptyDb) = Inr ()
   \<and> vehicle_current_status
        (snd (controller_ingestVehicleBatch sampleEnv
                [\<lparr> v_vehicleId = ''V-1'', v_soc = 85.5, v_kwhDeliveredDc = - 5,
                   v_batteryTemp = 32.5, v_timestamp = ''2024-02-08T10:30:00Z'' \<rparr>]
                emptyDb)) ''V-1''
     = Some \<lparr> vcs_vehicleId = ''V-1'', vcs_soc = 85.5, vcs_kwhDeliveredDc = - 5,
              vcs_batteryTemp = 32.5, vcs_lastUpdated = 1707388200000,
              vcs_createdAt = 1707388205000 \<rparr>
   \<and> vehicle_telemetry_history
        (snd (controller_ingestVehicleBatch sampleEnv
                [\<lparr> v_vehicleId = ''V-1'', v_soc = 85.5, v_kwhDeliveredDc = - 5,
                   v_batteryTemp = 32.5, v_timestamp = ''2024-02-08T10:30:00Z'' \<rparr>]
                emptyDb))
     = [\<lparr> vth_id = 1, vth_vehicleId = ''V-1'', vth_soc = 85.5, vth_kwhDeliveredDc = - 5,
          vth_batteryTemp = 32.5, vth_timestamp = 1707388200000,
          vth_ingestedAt = 1707388205000 \<rparr>]
   \<and> fst (controller_ingestMeter sampleEnv
          \<lparr> mb_meterId = JSString '''', mb_kwhConsumedAc = JSNumber 125.5432,
            mb_voltage = JSNumber 240.5, mb_timestamp = JSString ''2024-02-08T10:30:00Z'' \<rparr>
          emptyDb) = Inr ()
   \<and> meter_current_status
        (snd (controller_ingestMeter sampleEnv
                \<lparr> mb_meterId = JSString '''', mb_kwhConsumedAc = JSNumber 125.5432,
                  mb_voltage = JSNumber 240.5, mb_timestamp = JSString ''2024-02-08T10:30:00Z'' \<rparr>
                emptyDb)) ''''
     = Some \<lparr> mcs_meterId = '''', mcs_kwhConsumedAc = 125.5432, mcs_voltage = 240.5,
              mcs_lastUpdated = 1707388200000, mcs_createdAt = 1707388205000 \<rparr>
   \<and> meterHistoryCount ''''
        (snd (controller_ingestMeter sampleEnv
                \<lparr> mb_meterId = JSString '''', mb_kwhConsumedAc = JSNumber 125.5432,
                  mb_voltage = JSNumber 240.5, mb_timestamp = JSString ''2024-02-08T10:30:00Z'' \<rparr>
                emptyDb)) = 1"
proof -
  let ?bad = "\<lparr> v_vehicleId = ''V-1'', v_soc = 85.5, v_kwhDeliveredDc = - 5,
               v_batteryTemp = 32.5, v_timestamp = ''2024-02-08T10:30:00Z'' \<rparr>"
  let ?run = "controller_ingestVehicleBatch sampleEnv [?bad] emptyDb"
  let ?anon = "\<lparr> mb_meterId = JSString '''', mb_kwhConsumedAc = JSNumber 125.5432,
                 mb_voltage = JSNumber 240.5, mb_timestamp = JSString ''2024-02-08T10:30:00Z'' \<rparr>"
  let ?one = "controller_ingestMeter sampleEnv ?anon emptyDb"
  have single: "controller_ingestVehicle sampleEnv
     \<lparr> vb_vehicleId = JSString ''V-1'', vb_soc = JSNumber 85.5,
       vb_kwhDeliveredDc = JSNumber (- 5), vb_batteryTemp = JSNumber 32.5,
       vb_timestamp = JSString ''2024-02-08T10:30:00Z'' \<rparr>
     emptyDb
   = (Inl (ValidationError [''kwhDeliveredDc'']), emptyDb)"
    by (simp add: controller_ingestVehicle_def validatedVehicle_def
          validateVehicleTelemetryDto_def sampleEnv_def sampleDates_def)
  have ok: "fst ?run = Inr ()"
    by (simp add: controller_ingestVehicleBatch_def run_simps)
  have row: "vehicle_current_status (snd ?run) ''V-1''
     = Some \<lparr> vcs_vehicleId = ''V-1'', vcs_soc = 85.5, vcs_kwhDeliveredDc = - 5,
              vcs_batteryTemp = 32.5, vcs_lastUpdated = 1707388200000,
              vcs_createdAt = 1707388205000 \<rparr>"
    by (simp add: controller_ingestVehicleBatch_def run_simps)
  have hist: "vehicle_telemetry_history (snd ?run)
     = [\<lparr> vth_id = 1, vth_vehicleId = ''V-1'', vth_soc = 85.5, vth_kwhDeliveredDc = - 5,
          vth_batteryTemp = 32.5, vth_timestamp = 1707388200000,
          vth_ingestedAt = 1707388205000 \<rparr>]"
    by (simp add: controller_ingestVehicleBatch_def run_simps)
  have anon: "fst ?one = Inr ()"
    by (simp add: controller_ingestMeter_def validatedMeter_def validateMeterTelemetryDto_def
          run_simps)
  have arow: "meter_current_status (snd ?one) ''''
     = Some \<lparr> mcs_meterId = '''', mcs_kwhConsumedAc = 125.5432, mcs_voltage = 240.5,
              mcs_lastUpdated = 1707388200000, mcs_createdAt = 1707388205000 \<rparr>"
    by (simp add: controller_ingestMeter_def validatedMeter_def validateMeterTelemetryDto_def
          run_simps)
  have acount: "meterHistoryCount '''' (snd ?one) = 1"
    by (simp add: controller_ingestMeter_def validatedMeter_def validateMeterTelemetryDto_def
          meterHistoryCount_def run_simps)
  show ?thesis
    by (intro conjI) (fact single ok row hist anon arow acount)+
qed

end
